theory Spec2Isabelle
  imports Complex_Main
begin

section \<open>The location-aware map widget (src/js/widgets/GoogleMap.js)\<close>

text \<open>
  The widget is a JavaScript object whose methods mutate its fields and call into two
  external capabilities: the rendering surface (the mapping service's Map, Marker and
  Circle objects) and the host page's callbacks. The embedding passes the widget state
  explicitly. Every method call on a surface object, on the geolocator and every
  invocation of a host callback is appended, in program order, to the field
  \<open>calls\<close>, so that the order of effects can be stated. A JavaScript exception is the
  outcome \<open>Threw\<close>, which keeps the state reached when the exception left the method.

  Latitudes and longitudes are only handed on to the surface, never computed with, so the
  JavaScript numbers are taken as reals. Zoom levels are integers.
\<close>

subsection \<open>Data\<close>

datatype latlng = LatLng (lat: real) (lng: real)

datatype animation = BOUNCE | DROP

text \<open>A Marker of the surface: whether it is attached to the map (\<open>setMap(map)\<close>
  against \<open>setMap(null)\<close>), its animation, its position and the draggable flag.\<close>

record marker =
  marker_attached :: bool
  marker_animation :: "animation option"
  marker_position :: "latlng option"
  marker_draggable :: bool

text \<open>A Circle of the surface: \<open>getVisible()\<close> and its center.\<close>

record circle =
  circle_visible :: bool
  circle_center :: "latlng option"

text \<open>
  The Map of the surface, as far as the widget reads it. \<open>getBounds()\<close> answers
  \<open>undefined\<close> (here \<open>None\<close>) while the surface has not been laid out; once it has, the
  bounds answer \<open>contains\<close> for every coordinate. \<open>getZoom()\<close> is \<open>map_zoom\<close>.
\<close>

record gmap =
  map_bounds :: "(latlng \<Rightarrow> bool) option"
  map_zoom :: int
  map_center :: latlng

text \<open>
  Modelled from the spec: the Geolocator class (constructed in \<open>initializeGeolocator\<close>)
  is not among the sources. The spec gives the session a nullable last accepted
  coordinate, here \<open>currentPosition\<close>, and a configurable permission timeout.
\<close>

record Geolocator =
  currentPosition :: "latlng option"
  permissionTimeout :: int

text \<open>
  Modelled from the spec: \<open>Geolocator.isCurrentPositionAvailable\<close>, whose source is
  missing, reports whether a previously cached coordinate exists.
\<close>

definition isCurrentPositionAvailable :: "Geolocator \<Rightarrow> bool" where
  "isCurrentPositionAvailable g = (currentPosition g \<noteq> None)"

text \<open>
  Modelled from the spec: \<open>Geolocator.clearCurrentPosition\<close>, whose source is missing,
  forgets the cached coordinate.
\<close>

definition clearCurrentPosition :: "Geolocator \<Rightarrow> Geolocator" where
  "clearCurrentPosition g = g\<lparr>currentPosition := None\<rparr>"

text \<open>The calls that leave the widget: to the host page, the geolocator and the surface.\<close>

datatype call =
    Host_onGeolocationRequest
  | Host_onGeolocationPermissionTimeout bool
  | Host_onGeolocationSuccess real real
  | Host_onGeolocationError string
  | Geolocator_clearCurrentPosition
  | Map_setZoom int
  | Map_panTo latlng
  | Marker_setMap bool
  | Marker_setAnimation animation
  | Marker_setPosition latlng
  | Circle_setVisible bool
  | Circle_setCenter latlng

fun is_host_call :: "call \<Rightarrow> bool" where
  "is_host_call Host_onGeolocationRequest = True"
| "is_host_call (Host_onGeolocationPermissionTimeout b) = True"
| "is_host_call (Host_onGeolocationSuccess la lo) = True"
| "is_host_call (Host_onGeolocationError m) = True"
| "is_host_call c = False"

fun is_camera_call :: "call \<Rightarrow> bool" where
  "is_camera_call (Map_setZoom z) = True"
| "is_camera_call (Map_panTo p) = True"
| "is_camera_call c = False"

text \<open>
  The widget. The four callback fields hold \<open>$.isFunction(callback)\<close>: the host's
  functions themselves are opaque, and an invocation is recorded in \<open>calls\<close> with its
  arguments. The field \<open>map\<close> of the source is \<open>the_map\<close> here.
\<close>

record GoogleMap =
  geolocator :: Geolocator
  the_map :: "gmap option"
  userMarker :: "marker option"
  userLocationCircle :: "circle option"
  onGeolocationRequestCallback :: bool
  onGeolocationPermissionTimeoutCallback :: bool
  onGeolocationSuccessCallback :: bool
  onGeolocationErrorCallback :: bool
  geolocatorWaitTimeout :: int
  focusedZoomLevel :: int
  minFocusedZoomLevel :: int
  calls :: "call list"

datatype js_error = TypeError

datatype 's outcome = Returned 's | Threw js_error 's

definition and_then :: "'s outcome \<Rightarrow> ('s \<Rightarrow> 's outcome) \<Rightarrow> 's outcome" where
  "and_then r f = (case r of Returned s \<Rightarrow> f s | Threw e s \<Rightarrow> Threw e s)"

definition record_call :: "call \<Rightarrow> GoogleMap \<Rightarrow> GoogleMap" where
  "record_call c s = s\<lparr>calls := calls s @ [c]\<rparr>"

subsection \<open>Construction\<close>

definition userMarkerOptions :: marker where
  "userMarkerOptions =
     \<lparr>marker_attached = False, marker_animation = Some DROP,
      marker_position = None, marker_draggable = False\<rparr>"

text \<open>The prototype's defaults, then \<open>initializeGeolocator\<close>.\<close>

definition initializeGeolocator :: "GoogleMap \<Rightarrow> GoogleMap" where
  "initializeGeolocator s =
     s\<lparr>geolocator := \<lparr>currentPosition = None, permissionTimeout = geolocatorWaitTimeout s\<rparr>\<rparr>"

definition GoogleMap_new :: GoogleMap where
  "GoogleMap_new = initializeGeolocator
     \<lparr>geolocator = \<lparr>currentPosition = None, permissionTimeout = 0\<rparr>,
      the_map = None,
      userMarker = None,
      userLocationCircle = None,
      onGeolocationRequestCallback = False,
      onGeolocationPermissionTimeoutCallback = False,
      onGeolocationSuccessCallback = False,
      onGeolocationErrorCallback = False,
      geolocatorWaitTimeout = 3000,
      focusedZoomLevel = 15,
      minFocusedZoomLevel = 5,
      calls = []\<rparr>"

text \<open>
  \<open>initializeMap\<close> constructs the Map with \<open>mapOptions\<close> (center (0, 0), zoom 2). The
  surface has not been laid out at that moment, so it cannot report bounds yet.
\<close>

definition mapOptions :: gmap where
  "mapOptions = \<lparr>map_bounds = None, map_zoom = 2, map_center = LatLng 0 0\<rparr>"

definition initializeMap :: "GoogleMap \<Rightarrow> GoogleMap" where
  "initializeMap s = s\<lparr>the_map := Some mapOptions\<rparr>"

definition initializeUserLocationCircle :: "circle \<Rightarrow> GoogleMap \<Rightarrow> GoogleMap" where
  "initializeUserLocationCircle options s = s\<lparr>userLocationCircle := Some options\<rparr>"

subsection \<open>Marker and circle\<close>

definition removeUserPosition :: "GoogleMap \<Rightarrow> GoogleMap outcome" where
  "removeUserPosition s =
     (case userMarker s of
        None \<Rightarrow> Returned s
      | Some mk \<Rightarrow>
          Returned (record_call (Marker_setMap False)
            (s\<lparr>userMarker := Some (mk\<lparr>marker_attached := False\<rparr>)\<rparr>)))"

text \<open>
  The guard of the positioning methods is
  \<^verbatim>\<open>this.map == null || !this.map instanceof google.maps.Map\<close>. The negation binds
  tighter than \<open>instanceof\<close>, so the second disjunct asks whether a boolean is a Map and
  is always false.
\<close>

definition not_map_instanceof_Map :: "gmap option \<Rightarrow> bool" where
  "not_map_instanceof_Map m = False"

definition setUserMarker :: "real \<Rightarrow> real \<Rightarrow> GoogleMap \<Rightarrow> GoogleMap outcome" where
  "setUserMarker la lo s =
     (if the_map s = None \<or> not_map_instanceof_Map (the_map s) then Returned s
      else
        let mk = (case userMarker s of None \<Rightarrow> userMarkerOptions | Some mk \<Rightarrow> mk);
            s1 = record_call (Marker_setMap True)
                   (s\<lparr>userMarker := Some (mk\<lparr>marker_attached := True\<rparr>)\<rparr>);
            s2 = record_call (Marker_setAnimation DROP)
                   (s1\<lparr>userMarker := map_option (\<lambda>k. k\<lparr>marker_animation := Some DROP\<rparr>)
                                         (userMarker s1)\<rparr>);
            s3 = record_call (Marker_setPosition (LatLng la lo))
                   (s2\<lparr>userMarker := map_option (\<lambda>k. k\<lparr>marker_position := Some (LatLng la lo)\<rparr>)
                                         (userMarker s2)\<rparr>)
        in Returned s3)"

definition setUserLocationCirclePosition :: "real \<Rightarrow> real \<Rightarrow> GoogleMap \<Rightarrow> GoogleMap outcome" where
  "setUserLocationCirclePosition la lo s =
     (case userLocationCircle s of
        None \<Rightarrow> Returned s
      | Some c \<Rightarrow>
          let s1 = (if \<not> circle_visible c
                    then record_call (Circle_setVisible True)
                           (s\<lparr>userLocationCircle := Some (c\<lparr>circle_visible := True\<rparr>)\<rparr>)
                    else s);
              s2 = record_call (Circle_setCenter (LatLng la lo))
                     (s1\<lparr>userLocationCircle :=
                           map_option (\<lambda>k. k\<lparr>circle_center := Some (LatLng la lo)\<rparr>)
                             (userLocationCircle s1)\<rparr>)
          in Returned s2)"

definition hideUserLocationCircle :: "GoogleMap \<Rightarrow> GoogleMap outcome" where
  "hideUserLocationCircle s =
     (case userLocationCircle s of
        None \<Rightarrow> Returned s
      | Some c \<Rightarrow>
          if circle_visible c
          then Returned (record_call (Circle_setVisible False)
                 (s\<lparr>userLocationCircle := Some (c\<lparr>circle_visible := False\<rparr>)\<rparr>))
          else Returned s)"

subsection \<open>Camera\<close>

definition centerMap :: "real \<Rightarrow> real \<Rightarrow> GoogleMap \<Rightarrow> GoogleMap outcome" where
  "centerMap la lo s =
     (if the_map s = None \<or> not_map_instanceof_Map (the_map s) then Returned s
      else Returned (record_call (Map_panTo (LatLng la lo))
             (s\<lparr>the_map := map_option (\<lambda>m. m\<lparr>map_center := LatLng la lo\<rparr>) (the_map s)\<rparr>)))"

definition zoomMap :: "int \<Rightarrow> GoogleMap \<Rightarrow> GoogleMap outcome" where
  "zoomMap zoom s =
     (if the_map s = None \<or> not_map_instanceof_Map (the_map s) then Returned s
      else Returned (record_call (Map_setZoom zoom)
             (s\<lparr>the_map := map_option (\<lambda>m. m\<lparr>map_zoom := zoom\<rparr>) (the_map s)\<rparr>)))"

text \<open>
  \<open>focusOnLocation\<close> evaluates \<^verbatim>\<open>this.map.getBounds().contains(...)\<close> first: when
  \<open>getBounds()\<close> is \<open>undefined\<close> the property access throws a TypeError, before the
  zoom is compared.
\<close>

definition focusOnLocation :: "real \<Rightarrow> real \<Rightarrow> GoogleMap \<Rightarrow> GoogleMap outcome" where
  "focusOnLocation la lo s =
     (if the_map s = None \<or> not_map_instanceof_Map (the_map s) then Returned s
      else
        case the_map s of
          None \<Rightarrow> Returned s
        | Some m \<Rightarrow>
            (case map_bounds m of
               None \<Rightarrow> Threw TypeError s
             | Some contains \<Rightarrow>
                 if \<not> contains (LatLng la lo) \<or> map_zoom m < minFocusedZoomLevel s
                 then and_then (zoomMap (focusedZoomLevel s) s) (centerMap la lo)
                 else Returned s))"

subsection \<open>Handlers of the geolocator's events\<close>

definition onGeolocationSuccess :: "real \<Rightarrow> real \<Rightarrow> GoogleMap \<Rightarrow> GoogleMap outcome" where
  "onGeolocationSuccess la lo s =
     and_then (Returned (if onGeolocationSuccessCallback s
                         then record_call (Host_onGeolocationSuccess la lo) s else s))
       (\<lambda>s. and_then (focusOnLocation la lo s)
         (\<lambda>s. and_then (setUserMarker la lo s)
           (setUserLocationCirclePosition la lo)))"

definition onGeolocationPermissionTimeout :: "GoogleMap \<Rightarrow> GoogleMap outcome" where
  "onGeolocationPermissionTimeout s =
     Returned (if onGeolocationPermissionTimeoutCallback s
               then record_call
                      (Host_onGeolocationPermissionTimeout
                         (isCurrentPositionAvailable (geolocator s))) s
               else s)"

definition onGeolocationRequest :: "GoogleMap \<Rightarrow> GoogleMap outcome" where
  "onGeolocationRequest s =
     and_then (Returned (record_call Geolocator_clearCurrentPosition
                 (s\<lparr>geolocator := clearCurrentPosition (geolocator s)\<rparr>)))
       (\<lambda>s. and_then (removeUserPosition s)
         (\<lambda>s. and_then (hideUserLocationCircle s)
           (\<lambda>s. Returned (if onGeolocationRequestCallback s
                          then record_call Host_onGeolocationRequest s else s))))"

definition onGeolocationError :: "string \<Rightarrow> GoogleMap \<Rightarrow> GoogleMap outcome" where
  "onGeolocationError errorMessage s =
     Returned (if onGeolocationErrorCallback s
               then record_call (Host_onGeolocationError errorMessage) s else s)"

text \<open>The state an outcome carries, and whether the method returned.\<close>

fun outcome_state :: "'s outcome \<Rightarrow> 's" where
  "outcome_state (Returned s) = s"
| "outcome_state (Threw e s) = s"

fun has_returned :: "'s outcome \<Rightarrow> bool" where
  "has_returned (Returned s) = True"
| "has_returned (Threw e s) = False"

text \<open>
  The surface finishes its layout on its own, between two handlers of the widget; from
  then on \<open>getBounds()\<close> answers. This is the transition of the surface, not a method of
  the widget.
\<close>

definition surface_laid_out :: "(latlng \<Rightarrow> bool) \<Rightarrow> GoogleMap \<Rightarrow> GoogleMap" where
  "surface_laid_out contains s =
     s\<lparr>the_map := map_option (\<lambda>m. m\<lparr>map_bounds := Some contains\<rparr>) (the_map s)\<rparr>"

definition in_box :: "real \<Rightarrow> real \<Rightarrow> real \<Rightarrow> real \<Rightarrow> latlng \<Rightarrow> bool" where
  "in_box south west north east p =
     (south \<le> lat p \<and> lat p \<le> north \<and> west \<le> lng p \<and> lng p \<le> east)"

section \<open>The toggle button (src/js/widgets/ToggleButton.js)\<close>

subsection \<open>JavaScript values and loose equality\<close>

text \<open>
  \<open>selectState\<close> compares its argument with \<open>==\<close>, the loose equality of the language,
  which converts booleans and strings to numbers. The conversion of a string to a number
  belongs to the platform; it is the parameter \<open>tn\<close> (\<open>None\<close> for a string that is not
  an integer numeral). Numbers are integers here.
\<close>

datatype js_value = JUndefined | JNull | JBool bool | JNum int | JStr string

fun bool_to_number :: "js_value \<Rightarrow> js_value" where
  "bool_to_number (JBool b) = JNum (if b then 1 else 0)"
| "bool_to_number v = v"

fun loose_eq_prim :: "(string \<Rightarrow> int option) \<Rightarrow> js_value \<Rightarrow> js_value \<Rightarrow> bool" where
  "loose_eq_prim tn (JNum a) (JNum b) = (a = b)"
| "loose_eq_prim tn (JStr a) (JStr b) = (a = b)"
| "loose_eq_prim tn (JNum a) (JStr b) = (tn b = Some a)"
| "loose_eq_prim tn (JStr a) (JNum b) = (tn a = Some b)"
| "loose_eq_prim tn JUndefined JUndefined = True"
| "loose_eq_prim tn JUndefined JNull = True"
| "loose_eq_prim tn JNull JUndefined = True"
| "loose_eq_prim tn JNull JNull = True"
| "loose_eq_prim tn x y = False"

definition loose_eq :: "(string \<Rightarrow> int option) \<Rightarrow> js_value \<Rightarrow> js_value \<Rightarrow> bool" where
  "loose_eq tn x y = loose_eq_prim tn (bool_to_number x) (bool_to_number y)"

text \<open>The platform's conversion on strings of decimal digits, the instance used at
  concrete inputs.\<close>

definition digit_value :: "char \<Rightarrow> nat option" where
  "digit_value c =
     (let n = (of_char c :: nat) in if 48 \<le> n \<and> n \<le> 57 then Some (n - 48) else None)"

fun digits_value :: "nat \<Rightarrow> string \<Rightarrow> nat option" where
  "digits_value acc [] = Some acc"
| "digits_value acc (c # cs) =
     (case digit_value c of None \<Rightarrow> None | Some d \<Rightarrow> digits_value (10 * acc + d) cs)"

definition digits_to_number :: "string \<Rightarrow> int option" where
  "digits_to_number s = (if s = [] then None else map_option int (digits_value 0 s))"

subsection \<open>The widget\<close>

record request =
  req_type :: string
  req_url :: string
  req_dataType :: string
  req_data :: "(string \<times> int) option"

datatype toggle_call =
    Host_beforeSend
  | Host_complete
  | Host_success int
  | Host_error int

text \<open>
  The callback fields hold \<open>$.isFunction(callback)\<close>. \<open>sent\<close> lists the requests handed
  to the transport, \<open>notified\<close> the invocations of host callbacks, both in program order.
\<close>

record ToggleButton =
  uri :: string
  serverState :: int
  selectedState :: int
  httpMethod :: string
  requestDataType :: string
  parameterName :: string
  isRequestInProgress :: bool
  beforeSendCallback :: bool
  completeCallback :: bool
  successCallback :: bool
  errorCallback :: bool
  sent :: "request list"
  notified :: "toggle_call list"

definition ToggleButton_new :: "string \<Rightarrow> int \<Rightarrow> string \<Rightarrow> ToggleButton" where
  "ToggleButton_new uri0 serverState0 parameterName0 =
     \<lparr>uri = uri0, serverState = serverState0, selectedState = serverState0,
      httpMethod = ''POST'', requestDataType = ''json'', parameterName = parameterName0,
      isRequestInProgress = False,
      beforeSendCallback = False, completeCallback = False,
      successCallback = False, errorCallback = False,
      sent = [], notified = []\<rparr>"

definition notify :: "toggle_call \<Rightarrow> ToggleButton \<Rightarrow> ToggleButton" where
  "notify c s = s\<lparr>notified := notified s @ [c]\<rparr>"

text \<open>The four handlers that \<open>sendRequest\<close> puts into the request object.\<close>

definition ajax_beforeSend :: "ToggleButton \<Rightarrow> ToggleButton" where
  "ajax_beforeSend s =
     (let s1 = s\<lparr>isRequestInProgress := True\<rparr>
      in if beforeSendCallback s1 then notify Host_beforeSend s1 else s1)"

definition ajax_complete :: "ToggleButton \<Rightarrow> ToggleButton" where
  "ajax_complete s =
     (let s1 = s\<lparr>isRequestInProgress := False\<rparr>
      in if completeCallback s1 then notify Host_complete s1 else s1)"

definition ajax_success :: "ToggleButton \<Rightarrow> ToggleButton" where
  "ajax_success s =
     (let s1 = s\<lparr>serverState := selectedState s\<rparr>
      in if successCallback s1 then notify (Host_success (serverState s1)) s1 else s1)"

definition ajax_error :: "ToggleButton \<Rightarrow> ToggleButton" where
  "ajax_error s =
     (let s1 = s\<lparr>selectedState := serverState s\<rparr>
      in if errorCallback s1 then notify (Host_error (serverState s1)) s1 else s1)"

text \<open>
  \<open>$.ajax\<close> calls \<open>beforeSend\<close> synchronously and then hands the request to the
  transport. When the response arrives it calls \<open>success\<close> or \<open>error\<close>, then
  \<open>complete\<close>.
\<close>

definition jquery_ajax :: "request \<Rightarrow> ToggleButton \<Rightarrow> ToggleButton" where
  "jquery_ajax r s = (let s1 = ajax_beforeSend s in s1\<lparr>sent := sent s1 @ [r]\<rparr>)"

definition response_success :: "ToggleButton \<Rightarrow> ToggleButton" where
  "response_success s = ajax_complete (ajax_success s)"

definition response_failure :: "ToggleButton \<Rightarrow> ToggleButton" where
  "response_failure s = ajax_complete (ajax_error s)"

text \<open>\<open>toUpperCase\<close> on the ASCII letters, which HTTP method names consist of.\<close>

definition toUpperCase_char :: "char \<Rightarrow> char" where
  "toUpperCase_char c =
     (case map_of (zip ''abcdefghijklmnopqrstuvwxyz'' ''ABCDEFGHIJKLMNOPQRSTUVWXYZ'') c of
        None \<Rightarrow> c
      | Some u \<Rightarrow> u)"

definition toUpperCase :: "string \<Rightarrow> string" where
  "toUpperCase s = map toUpperCase_char s"

definition sendRequest :: "ToggleButton \<Rightarrow> ToggleButton" where
  "sendRequest s =
     (if isRequestInProgress s then s
      else
        let ajax = \<lparr>req_type = httpMethod s, req_url = uri s,
                    req_dataType = requestDataType s, req_data = None\<rparr>;
            ajax = (if toUpperCase (httpMethod s) = ''POST''
                    then ajax\<lparr>req_data := Some (parameterName s, selectedState s)\<rparr>
                    else ajax)
        in jquery_ajax ajax s)"

definition selectState :: "(string \<Rightarrow> int option) \<Rightarrow> js_value \<Rightarrow> ToggleButton \<Rightarrow> ToggleButton" where
  "selectState tn state s =
     sendRequest
       (s\<lparr>selectedState :=
            (if loose_eq tn state (JBool True) \<or> loose_eq tn state (JNum 1)
                \<or> loose_eq tn state (JStr ''1'')
             then 1 else 0)\<rparr>)"

text \<open>Several calls of \<open>selectState\<close> in a row, the first value first.\<close>

fun selectStates :: "(string \<Rightarrow> int option) \<Rightarrow> js_value list \<Rightarrow> ToggleButton \<Rightarrow> ToggleButton" where
  "selectStates tn [] s = s"
| "selectStates tn (v # vs) s = selectStates tn vs (selectState tn v s)"

section \<open>The query-string builder (src/js/http/HttpQueryStringBuilder.js)\<close>

subsection \<open>The platform's string functions\<close>





text \<open>
  A JavaScript number is NaN, an infinity or a finite double. A finite double is a real
  number; the builder only compares the page with 0 and 1 and turns it into a string, it
  never computes with it. Every comparison with NaN is false.
\<close>

datatype js_number = NaN | PosInfinity | NegInfinity | Finite real



text \<open>
  The page is whatever \<open>setPage\<close> was given, stored unchecked: a number, a string,
  null or undefined. \<^verbatim>\<open>this.page > 0\<close> and \<^verbatim>\<open>this.page < 1\<close> compare its
  conversion to a number, \<^verbatim>\<open>"?page=" + this.page\<close> appends its conversion to a
  string. The conversion of a string to a number (\<open>tn\<close>) and of a number to a string
  (\<open>ns\<close>) belong to the platform and are parameters.
\<close>

datatype page_value = PageNumber js_number | PageString string | PageNull | PageUndefined



text \<open>
  The instances used at concrete inputs. \<open>Number_toString\<close> is the platform's conversion
  where it is plain: NaN, the infinities, the whole numbers of magnitude below
  \<open>10\<^sup>2\<^sup>1\<close> in decimal digits, and one half. It is applied to no other number.
  \<open>StringToNumber_digits\<close> is the platform's conversion on the non-empty strings of
  decimal digits. It is applied to no other string.
\<close>

fun decimal_digits :: "nat \<Rightarrow> string" where
  "decimal_digits n =
     (if n < 10 then [''0123456789'' ! n]
      else decimal_digits (n div 10) @ [''0123456789'' ! (n mod 10)])"

declare decimal_digits.simps [simp del]

definition Number_toString :: "js_number \<Rightarrow> string" where
  "Number_toString n =
     (case n of
        NaN \<Rightarrow> ''NaN''
      | PosInfinity \<Rightarrow> ''Infinity''
      | NegInfinity \<Rightarrow> ''-Infinity''
      | Finite r \<Rightarrow>
          if r = 1 / 2 then ''0.5''
          else if r = of_int \<lfloor>r\<rfloor> \<and> \<bar>r\<bar> < 10 ^ 21
          then (if r < 0 then ''-'' else []) @ decimal_digits (nat \<lfloor>\<bar>r\<bar>\<rfloor>)
          else [])"

definition StringToNumber_digits :: "string \<Rightarrow> js_number" where
  "StringToNumber_digits s =
     (case digits_to_number s of None \<Rightarrow> NaN | Some n \<Rightarrow> Finite (of_int n))"

subsection \<open>The collection of query parameters\<close>

text \<open>
  Modelled from the spec: the Collection class is not among the sources. The builder
  reads its field \<open>objects\<close>, an object with one property for each stored query
  parameter. The object is the list of its properties, name and value, in the order in
  which \<^verbatim>\<open>for (var parameter in objects)\<close> visits them; a property name occurs
  once in an object.
\<close>

record Collection =
  objects :: "(string \<times> string) list"



subsection \<open>The builder\<close>

text \<open>The field \<open>page\<close> is 0 in the prototype; \<open>setPage\<close> stores its argument as it
  is.\<close>

record HttpQueryStringBuilder =
  baseUri :: string
  page :: page_value
  queryParameters :: Collection

definition HttpQueryStringBuilder_new :: HttpQueryStringBuilder where
  "HttpQueryStringBuilder_new =
     \<lparr>baseUri = ''/'', page = PageNumber (Finite 0), queryParameters = \<lparr>objects = []\<rparr>\<rparr>"








section \<open>Concrete widgets\<close>

text \<open>
  The scenario of the specification: a widget with a success callback and an accuracy
  circle, initialised, laid out with a view of most of the world at zoom 2.
\<close>

definition scenario_widget :: GoogleMap where
  "scenario_widget =
     surface_laid_out (in_box (- 60) (- 170) 70 170)
       (initializeUserLocationCircle \<lparr>circle_visible = False, circle_center = None\<rparr>
         (initializeMap (GoogleMap_new\<lparr>onGeolocationSuccessCallback := True\<rparr>)))"

text \<open>
  The same widget after the geolocator has accepted (40, -74) and delivered it: all four
  callbacks are set, and the surface shows the surroundings of the coordinate at zoom 15.
\<close>

definition tracking_widget :: GoogleMap where
  "tracking_widget =
     surface_laid_out (in_box 39 (- 75) 41 (- 73))
       ((outcome_state (onGeolocationSuccess 40 (- 74) scenario_widget))
          \<lparr>geolocator := \<lparr>currentPosition = Some (LatLng 40 (- 74)), permissionTimeout = 3000\<rparr>,
           onGeolocationRequestCallback := True,
           onGeolocationPermissionTimeoutCallback := True,
           onGeolocationErrorCallback := True\<rparr>)"


definition like_button :: ToggleButton where
  "like_button = ToggleButton_new ''/likes'' 0 ''state''"

section \<open>Properties of the map widget\<close>

lemmas surface_defs = setUserMarker_def centerMap_def zoomMap_def focusOnLocation_def
  not_map_instanceof_Map_def and_then_def record_call_def

lemmas handler_defs = onGeolocationSuccess_def onGeolocationPermissionTimeout_def
  onGeolocationRequest_def onGeolocationError_def removeUserPosition_def
  hideUserLocationCircle_def setUserLocationCirclePosition_def

lemmas setup_defs = GoogleMap_new_def initializeGeolocator_def initializeMap_def
  mapOptions_def initializeUserLocationCircle_def surface_laid_out_def userMarkerOptions_def
  in_box_def

lemma scenario_widget_map:
  "the_map scenario_widget =
     Some \<lparr>map_bounds = Some (in_box (- 60) (- 170) 70 170), map_zoom = 2,
           map_center = LatLng 0 0\<rparr>"
  by (simp add: scenario_widget_def setup_defs)

lemma scenario_widget_calls:
  "calls (outcome_state (onGeolocationSuccess 40 (- 74) scenario_widget)) =
     [Host_onGeolocationSuccess 40 (- 74),
      Map_setZoom 15, Map_panTo (LatLng 40 (- 74)),
      Marker_setMap True, Marker_setAnimation DROP, Marker_setPosition (LatLng 40 (- 74)),
      Circle_setVisible True, Circle_setCenter (LatLng 40 (- 74))]"
  by (simp add: scenario_widget_def setup_defs handler_defs surface_defs)

lemma tracking_widget_fields:
  "the_map tracking_widget =
     Some \<lparr>map_bounds = Some (in_box 39 (- 75) 41 (- 73)), map_zoom = 15,
           map_center = LatLng 40 (- 74)\<rparr>"
  "userMarker tracking_widget =
     Some \<lparr>marker_attached = True, marker_animation = Some DROP,
           marker_position = Some (LatLng 40 (- 74)), marker_draggable = False\<rparr>"
  "userLocationCircle tracking_widget =
     Some \<lparr>circle_visible = True, circle_center = Some (LatLng 40 (- 74))\<rparr>"
  "geolocator tracking_widget =
     \<lparr>currentPosition = Some (LatLng 40 (- 74)), permissionTimeout = 3000\<rparr>"
  "onGeolocationRequestCallback tracking_widget"
  "onGeolocationPermissionTimeoutCallback tracking_widget"
  "onGeolocationSuccessCallback tracking_widget"
  "onGeolocationErrorCallback tracking_widget"
  "minFocusedZoomLevel tracking_widget = 5"
  "focusedZoomLevel tracking_widget = 15"
  "calls tracking_widget = calls (outcome_state (onGeolocationSuccess 40 (- 74) scenario_widget))"
  by (simp_all add: tracking_widget_def scenario_widget_def setup_defs handler_defs surface_defs)

subsection \<open>Positioning before the map exists\<close>

text \<open>
  Claim C6. While \<open>initializeMap\<close> has not been called the field \<open>map\<close> is null, and
  each positioning method (placing the user marker, centering, zooming, focusing) returns
  without an exception and leaves the widget as it was: no call reaches the surface.
\<close>

theorem positioning_before_initializeMap_is_noop:
  assumes "the_map s = None"
  shows "setUserMarker la lo s = Returned s \<and> centerMap la lo s = Returned s
       \<and> zoomMap z s = Returned s \<and> focusOnLocation la lo s = Returned s"
  using assms by (simp add: surface_defs)

theorem positioning_before_initializeMap_witness:
  "the_map GoogleMap_new = None
   \<and> setUserMarker 40 (- 74) GoogleMap_new = Returned GoogleMap_new
   \<and> centerMap 40 (- 74) GoogleMap_new = Returned GoogleMap_new
   \<and> zoomMap 15 GoogleMap_new = Returned GoogleMap_new
   \<and> focusOnLocation 40 (- 74) GoogleMap_new = Returned GoogleMap_new"
proof -
  have h: "the_map GoogleMap_new = None"
    by (simp add: setup_defs)
  show ?thesis
    using h positioning_before_initializeMap_is_noop [OF h, of 40 "- 74" 15] by simp
qed

subsection \<open>The focus decision\<close>

text \<open>
  Claim C3 asks that a map which cannot report its bounds yet is recentered at
  \<open>focusedZoomLevel\<close> without a failure. On such a map \<open>focusOnLocation\<close> throws a
  TypeError instead and leaves the widget as it was: no call reaches the surface. The
  success handler stops there, after the host's callback and before the marker and the
  circle.
\<close>

theorem focusOnLocation_throws_without_bounds:
  assumes "the_map s = Some m" and "map_bounds m = None"
  shows "focusOnLocation la lo s = Threw TypeError s
       \<and> onGeolocationSuccess la lo s =
           Threw TypeError (if onGeolocationSuccessCallback s
                            then s\<lparr>calls := calls s @ [Host_onGeolocationSuccess la lo]\<rparr>
                            else s)"
  using assms by (simp add: handler_defs surface_defs)

text \<open>The widget right after \<open>initializeMap\<close>, before the surface has been laid out.\<close>

theorem focusOnLocation_throws_before_layout:
  "the_map (initializeMap GoogleMap_new) = Some mapOptions
   \<and> map_bounds mapOptions = None
   \<and> focusOnLocation 35 139 (initializeMap GoogleMap_new)
       = Threw TypeError (initializeMap GoogleMap_new)
   \<and> calls (initializeMap GoogleMap_new) = []"
proof -
  have initialized: "the_map (initializeMap GoogleMap_new) = Some mapOptions"
    by (simp add: initializeMap_def)
  have no_bounds: "map_bounds mapOptions = None"
    by (simp add: mapOptions_def)
  have quiet: "calls (initializeMap GoogleMap_new) = []"
    by (simp add: setup_defs)
  from focusOnLocation_throws_without_bounds [OF initialized no_bounds, of 35 139]
    initialized no_bounds quiet
  show ?thesis by simp
qed

text \<open>
  Claim C1 expects, on every initialized map, the recenter-and-zoom exactly when the
  coordinate lies outside the current bounds or the current zoom is strictly less than
  \<open>minFocusedZoomLevel\<close>. On an initialized map that cannot report its bounds and is
  zoomed out below \<open>minFocusedZoomLevel\<close>, the success path does not return and issues
  no pan or zoom call.
\<close>

theorem success_without_bounds_issues_no_focus:
  assumes "the_map s = Some m" and "map_bounds m = None"
    and "map_zoom m < minFocusedZoomLevel s"
  shows "\<not> has_returned (onGeolocationSuccess la lo s)
       \<and> filter is_camera_call (calls (outcome_state (onGeolocationSuccess la lo s)))
           = filter is_camera_call (calls s)"
  using assms by (simp add: handler_defs surface_defs)

text \<open>The map that has just been initialized: zoom 2, below the default
  \<open>minFocusedZoomLevel\<close> = 5, and no bounds yet.\<close>

theorem success_before_layout_issues_no_focus:
  "the_map (initializeMap GoogleMap_new) = Some mapOptions
   \<and> map_bounds mapOptions = None
   \<and> map_zoom mapOptions = 2
   \<and> minFocusedZoomLevel (initializeMap GoogleMap_new) = 5
   \<and> \<not> has_returned (onGeolocationSuccess 40 (- 74) (initializeMap GoogleMap_new))
   \<and> filter is_camera_call
       (calls (outcome_state (onGeolocationSuccess 40 (- 74) (initializeMap GoogleMap_new)))) = []"
proof -
  have initialized: "the_map (initializeMap GoogleMap_new) = Some mapOptions"
    by (simp add: initializeMap_def)
  have no_bounds: "map_bounds mapOptions = None" and zoom: "map_zoom mapOptions = 2"
    by (simp_all add: mapOptions_def)
  have level: "minFocusedZoomLevel (initializeMap GoogleMap_new) = 5"
    by (simp add: setup_defs)
  have zoomed_out: "map_zoom mapOptions < minFocusedZoomLevel (initializeMap GoogleMap_new)"
    using zoom level by simp
  have quiet: "calls (initializeMap GoogleMap_new) = []"
    by (simp add: setup_defs)
  from success_without_bounds_issues_no_focus [OF initialized no_bounds zoomed_out, of 40 "- 74"]
    initialized no_bounds zoom level quiet
  show ?thesis by simp
qed

text \<open>
  On an initialized map that reports its bounds the decision is the stated one: the zoom
  is set to \<open>focusedZoomLevel\<close> (default 15) and the map is panned to the coordinate if
  and only if the coordinate lies outside the current bounds or the current zoom is
  strictly less than \<open>minFocusedZoomLevel\<close> (default 5); otherwise no pan or zoom call
  is issued.
\<close>

lemma focus_with_bounds_iff_outside_or_zoomed_out:
  assumes "the_map s = Some m" and "map_bounds m = Some contains"
  shows "focusOnLocation la lo s =
           Returned (if \<not> contains (LatLng la lo) \<or> map_zoom m < minFocusedZoomLevel s
                     then s\<lparr>the_map := Some (m\<lparr>map_zoom := focusedZoomLevel s,
                                                map_center := LatLng la lo\<rparr>),
                            calls := calls s @ [Map_setZoom (focusedZoomLevel s),
                                                Map_panTo (LatLng la lo)]\<rparr>
                     else s)
       \<and> filter is_camera_call (calls (outcome_state (onGeolocationSuccess la lo s))) =
           filter is_camera_call (calls s)
           @ (if \<not> contains (LatLng la lo) \<or> map_zoom m < minFocusedZoomLevel s
              then [Map_setZoom (focusedZoomLevel s), Map_panTo (LatLng la lo)] else [])
       \<and> focusedZoomLevel GoogleMap_new = 15 \<and> minFocusedZoomLevel GoogleMap_new = 5"
proof (intro conjI)
  show "focusOnLocation la lo s =
           Returned (if \<not> contains (LatLng la lo) \<or> map_zoom m < minFocusedZoomLevel s
                     then s\<lparr>the_map := Some (m\<lparr>map_zoom := focusedZoomLevel s,
                                                map_center := LatLng la lo\<rparr>),
                            calls := calls s @ [Map_setZoom (focusedZoomLevel s),
                                                Map_panTo (LatLng la lo)]\<rparr>
                     else s)"
    using assms by (simp add: surface_defs)
  show "filter is_camera_call (calls (outcome_state (onGeolocationSuccess la lo s))) =
           filter is_camera_call (calls s)
           @ (if \<not> contains (LatLng la lo) \<or> map_zoom m < minFocusedZoomLevel s
              then [Map_setZoom (focusedZoomLevel s), Map_panTo (LatLng la lo)] else [])"
    using assms by (auto simp add: handler_defs surface_defs Let_def split: option.splits)
  show "focusedZoomLevel GoogleMap_new = 15" by (simp add: setup_defs)
  show "minFocusedZoomLevel GoogleMap_new = 5" by (simp add: setup_defs)
qed

text \<open>The zoomed-out scenario is focused, the focused one is left alone.\<close>

lemma focus_with_bounds_examples:
  "filter is_camera_call (calls (outcome_state (onGeolocationSuccess 40 (- 74) scenario_widget)))
     = [Map_setZoom 15, Map_panTo (LatLng 40 (- 74))]
   \<and> focusOnLocation 40 (- 74) tracking_widget = Returned tracking_widget
   \<and> filter is_camera_call (calls (outcome_state (onGeolocationSuccess 40 (- 74) tracking_widget)))
     = filter is_camera_call (calls tracking_widget)"
  using focus_with_bounds_iff_outside_or_zoomed_out
          [OF scenario_widget_map, of "in_box (- 60) (- 170) 70 170" 40 "- 74"]
        focus_with_bounds_iff_outside_or_zoomed_out
          [OF tracking_widget_fields(1), of "in_box 39 (- 75) 41 (- 73)" 40 "- 74"]
  by (simp add: tracking_widget_fields in_box_def scenario_widget_def setup_defs)

subsection \<open>The success handler\<close>

text \<open>
  Claim C2 puts the host's success callback after the visual updates. In the scenario
  the callback is the first call of the handler, before the zoom, the pan, the marker and
  the circle.
\<close>

theorem success_callback_precedes_visual_updates:
  "calls (outcome_state (onGeolocationSuccess 40 (- 74) scenario_widget)) =
     [Host_onGeolocationSuccess 40 (- 74),
      Map_setZoom 15, Map_panTo (LatLng 40 (- 74)),
      Marker_setMap True, Marker_setAnimation DROP, Marker_setPosition (LatLng 40 (- 74)),
      Circle_setVisible True, Circle_setCenter (LatLng 40 (- 74))]
   \<and> hd (calls (outcome_state (onGeolocationSuccess 40 (- 74) scenario_widget)))
       = Host_onGeolocationSuccess 40 (- 74)
   \<and> \<not> is_host_call (last (calls (outcome_state (onGeolocationSuccess 40 (- 74) scenario_widget))))"
  by (simp add: scenario_widget_calls)

text \<open>
  Claim C2, amended: on every successful geolocation event on an initialized map that
  reports its bounds, the handler first forwards the coordinate to the host's success
  callback (when one is set), then decides and conditionally applies the focus, then
  attaches, animates and positions the user marker, then makes the accuracy circle
  visible and centers it (when a circle was initialized), and returns.
\<close>

theorem onGeolocationSuccess_order:
  assumes "the_map s = Some m" and "map_bounds m = Some contains"
  shows "has_returned (onGeolocationSuccess la lo s)
       \<and> calls (outcome_state (onGeolocationSuccess la lo s)) =
           calls s
           @ (if onGeolocationSuccessCallback s then [Host_onGeolocationSuccess la lo] else [])
           @ (if \<not> contains (LatLng la lo) \<or> map_zoom m < minFocusedZoomLevel s
              then [Map_setZoom (focusedZoomLevel s), Map_panTo (LatLng la lo)] else [])
           @ [Marker_setMap True, Marker_setAnimation DROP, Marker_setPosition (LatLng la lo)]
           @ (case userLocationCircle s of
                None \<Rightarrow> []
              | Some c \<Rightarrow> (if \<not> circle_visible c then [Circle_setVisible True] else [])
                           @ [Circle_setCenter (LatLng la lo)])
       \<and> map_option marker_position (userMarker (outcome_state (onGeolocationSuccess la lo s)))
           = Some (Some (LatLng la lo))
       \<and> map_option marker_attached (userMarker (outcome_state (onGeolocationSuccess la lo s)))
           = Some True
       \<and> (userLocationCircle s \<noteq> None \<longrightarrow>
            userLocationCircle (outcome_state (onGeolocationSuccess la lo s))
              = Some \<lparr>circle_visible = True, circle_center = Some (LatLng la lo)\<rparr>)"
  using assms
  by (auto simp add: handler_defs surface_defs Let_def split: option.splits)

theorem onGeolocationSuccess_order_witness:
  "has_returned (onGeolocationSuccess 41 (- 73) tracking_widget)
   \<and> calls (outcome_state (onGeolocationSuccess 41 (- 73) tracking_widget)) =
       calls tracking_widget
       @ [Host_onGeolocationSuccess 41 (- 73),
          Marker_setMap True, Marker_setAnimation DROP, Marker_setPosition (LatLng 41 (- 73)),
          Circle_setCenter (LatLng 41 (- 73))]"
  using onGeolocationSuccess_order
          [OF tracking_widget_fields(1), of "in_box 39 (- 75) 41 (- 73)" 41 "- 73"]
  by (simp add: tracking_widget_fields in_box_def)

subsection \<open>The error and permission-timeout handlers\<close>

text \<open>
  Claim C4. The handlers of an error event and of a permission-timeout event return
  having done nothing but invoke the host's callback (when one is set): the user marker,
  the accuracy circle, the map with its zoom and center, and the geolocator with its
  cached coordinate are unchanged, and no call other than the host callback is recorded.
\<close>

theorem error_and_timeout_only_notify_host:
  "has_returned (onGeolocationError msg s)
   \<and> userMarker (outcome_state (onGeolocationError msg s)) = userMarker s
   \<and> userLocationCircle (outcome_state (onGeolocationError msg s)) = userLocationCircle s
   \<and> the_map (outcome_state (onGeolocationError msg s)) = the_map s
   \<and> geolocator (outcome_state (onGeolocationError msg s)) = geolocator s
   \<and> calls (outcome_state (onGeolocationError msg s)) =
       calls s @ (if onGeolocationErrorCallback s then [Host_onGeolocationError msg] else [])
   \<and> has_returned (onGeolocationPermissionTimeout s)
   \<and> userMarker (outcome_state (onGeolocationPermissionTimeout s)) = userMarker s
   \<and> userLocationCircle (outcome_state (onGeolocationPermissionTimeout s)) = userLocationCircle s
   \<and> the_map (outcome_state (onGeolocationPermissionTimeout s)) = the_map s
   \<and> geolocator (outcome_state (onGeolocationPermissionTimeout s)) = geolocator s
   \<and> calls (outcome_state (onGeolocationPermissionTimeout s)) =
       calls s @ (if onGeolocationPermissionTimeoutCallback s
                  then [Host_onGeolocationPermissionTimeout
                          (isCurrentPositionAvailable (geolocator s))]
                  else [])"
  by (simp add: handler_defs record_call_def)

theorem error_and_timeout_only_notify_host_witness:
  "onGeolocationError ''PERMISSION_DENIED'' tracking_widget =
     Returned (tracking_widget\<lparr>calls := calls tracking_widget
                                   @ [Host_onGeolocationError ''PERMISSION_DENIED'']\<rparr>)
   \<and> userMarker (outcome_state (onGeolocationPermissionTimeout tracking_widget))
       = userMarker tracking_widget
   \<and> currentPosition (geolocator (outcome_state (onGeolocationPermissionTimeout tracking_widget)))
       = Some (LatLng 40 (- 74))
   \<and> the_map (outcome_state (onGeolocationPermissionTimeout scenario_widget))
       = the_map scenario_widget
   \<and> calls (outcome_state (onGeolocationPermissionTimeout scenario_widget)) = []"
  using error_and_timeout_only_notify_host [of "''PERMISSION_DENIED''" tracking_widget]
        error_and_timeout_only_notify_host [of "''PERMISSION_DENIED''" scenario_widget]
  by (simp add: tracking_widget_fields onGeolocationError_def record_call_def
        scenario_widget_def setup_defs)

text \<open>
  Claim C7. The permission-timeout notification that reaches the host's callback carries
  one boolean, which is true exactly when the geolocator holds a cached coordinate at
  that moment.
\<close>

theorem permission_timeout_reports_cached_position:
  assumes "onGeolocationPermissionTimeoutCallback s"
  shows "calls (outcome_state (onGeolocationPermissionTimeout s)) =
           calls s @ [Host_onGeolocationPermissionTimeout (currentPosition (geolocator s) \<noteq> None)]"
  using assms by (simp add: handler_defs record_call_def isCurrentPositionAvailable_def)

theorem permission_timeout_reports_cached_position_witness:
  "onGeolocationPermissionTimeoutCallback tracking_widget
   \<and> calls (outcome_state (onGeolocationPermissionTimeout tracking_widget)) =
       calls tracking_widget @ [Host_onGeolocationPermissionTimeout True]
   \<and> calls (outcome_state (onGeolocationPermissionTimeout
               (tracking_widget\<lparr>geolocator := clearCurrentPosition (geolocator tracking_widget)\<rparr>))) =
       calls tracking_widget @ [Host_onGeolocationPermissionTimeout False]"
proof -
  have h: "onGeolocationPermissionTimeoutCallback tracking_widget"
    by (rule tracking_widget_fields)
  have h': "onGeolocationPermissionTimeoutCallback
              (tracking_widget\<lparr>geolocator := clearCurrentPosition (geolocator tracking_widget)\<rparr>)"
    using h by simp
  show ?thesis
    using h permission_timeout_reports_cached_position [OF h]
      permission_timeout_reports_cached_position [OF h']
    by (simp add: tracking_widget_fields clearCurrentPosition_def)
qed

subsection \<open>The request handler\<close>

text \<open>
  Claim C5. On a request-made event the handler clears the geolocator's cached position,
  detaches the user marker from the map (when there is one) and hides the accuracy circle
  (when there is one and it is visible); the host's request callback, when set, is
  invoked after all of these.
\<close>

theorem onGeolocationRequest_clears_then_notifies:
  "has_returned (onGeolocationRequest s)
   \<and> currentPosition (geolocator (outcome_state (onGeolocationRequest s))) = None
   \<and> (case userMarker (outcome_state (onGeolocationRequest s)) of
        None \<Rightarrow> userMarker s = None
      | Some mk \<Rightarrow> \<not> marker_attached mk)
   \<and> (case userLocationCircle (outcome_state (onGeolocationRequest s)) of
        None \<Rightarrow> userLocationCircle s = None
      | Some c \<Rightarrow> \<not> circle_visible c)
   \<and> calls (outcome_state (onGeolocationRequest s)) =
       calls s
       @ [Geolocator_clearCurrentPosition]
       @ (if userMarker s \<noteq> None then [Marker_setMap False] else [])
       @ (case userLocationCircle s of
            None \<Rightarrow> []
          | Some c \<Rightarrow> if circle_visible c then [Circle_setVisible False] else [])
       @ (if onGeolocationRequestCallback s then [Host_onGeolocationRequest] else [])"
  by (auto simp add: handler_defs and_then_def record_call_def clearCurrentPosition_def
      split: option.splits)

theorem onGeolocationRequest_clears_then_notifies_witness:
  "currentPosition (geolocator tracking_widget) = Some (LatLng 40 (- 74))
   \<and> currentPosition (geolocator (outcome_state (onGeolocationRequest tracking_widget))) = None
   \<and> map_option marker_attached (userMarker (outcome_state (onGeolocationRequest tracking_widget)))
       = Some False
   \<and> map_option circle_visible
       (userLocationCircle (outcome_state (onGeolocationRequest tracking_widget))) = Some False
   \<and> calls (outcome_state (onGeolocationRequest tracking_widget)) =
       calls tracking_widget
       @ [Geolocator_clearCurrentPosition, Marker_setMap False, Circle_setVisible False,
          Host_onGeolocationRequest]"
  using onGeolocationRequest_clears_then_notifies [of tracking_widget]
  by (auto simp add: tracking_widget_fields split: option.splits)

section \<open>Properties of the toggle button\<close>

lemmas toggle_defs = selectState_def sendRequest_def jquery_ajax_def ajax_beforeSend_def
  ajax_complete_def ajax_success_def ajax_error_def response_success_def response_failure_def
  notify_def

lemmas value_defs = loose_eq_def digits_to_number_def digit_value_def
  toUpperCase_def toUpperCase_char_def

text \<open>While a request is outstanding, further selections neither send anything nor touch
  the confirmed state or the flag.\<close>

lemma selectStates_in_progress:
  "isRequestInProgress s \<Longrightarrow>
     sent (selectStates tn vs s) = sent s
   \<and> serverState (selectStates tn vs s) = serverState s
   \<and> isRequestInProgress (selectStates tn vs s)"
proof (induction vs arbitrary: s)
  case Nil
  then show ?case by simp
next
  case (Cons v vs)
  have "isRequestInProgress (selectState tn v s)"
    and "sent (selectState tn v s) = sent s"
    and "serverState (selectState tn v s) = serverState s"
    using Cons.prems by (simp_all add: toggle_defs)
  with Cons.IH [of "selectState tn v s"] show ?case by simp
qed

lemma selectState_idle:
  assumes "\<not> isRequestInProgress s"
  shows "sent (selectState tn v s) = sent s @
           [\<lparr>req_type = httpMethod s, req_url = uri s, req_dataType = requestDataType s,
             req_data = (if toUpperCase (httpMethod s) = ''POST''
                         then Some (parameterName s,
                                if loose_eq tn v (JBool True) \<or> loose_eq tn v (JNum 1)
                                   \<or> loose_eq tn v (JStr ''1'') then 1 else 0)
                         else None)\<rparr>]"
    and "isRequestInProgress (selectState tn v s)"
    and "serverState (selectState tn v s) = serverState s"
  using assms by (simp_all add: toggle_defs Let_def)

text \<open>
  Claim C8. A call of \<open>selectState\<close> sets the selected state at once. It hands no
  request to the transport when one is outstanding and exactly one otherwise, raising the
  in-flight flag. When that request fails, whatever further selections were made while
  it was outstanding, the selected state goes back to the server state confirmed before
  the call.
\<close>

theorem selectState_optimistic_single_request_revert:
  "selectedState (selectState tn v s) =
     (if loose_eq tn v (JBool True) \<or> loose_eq tn v (JNum 1) \<or> loose_eq tn v (JStr ''1'')
      then 1 else 0)
   \<and> (isRequestInProgress s \<longrightarrow> sent (selectState tn v s) = sent s)
   \<and> (\<not> isRequestInProgress s \<longrightarrow>
        length (sent (selectState tn v s)) = length (sent s) + 1
      \<and> butlast (sent (selectState tn v s)) = sent s
      \<and> isRequestInProgress (selectState tn v s)
      \<and> sent (selectStates tn vs (selectState tn v s)) = sent (selectState tn v s)
      \<and> selectedState (response_failure (selectStates tn vs (selectState tn v s))) = serverState s
      \<and> serverState (response_failure (selectStates tn vs (selectState tn v s))) = serverState s)"
proof (intro conjI impI)
  show "selectedState (selectState tn v s) =
     (if loose_eq tn v (JBool True) \<or> loose_eq tn v (JNum 1) \<or> loose_eq tn v (JStr ''1'')
      then 1 else 0)"
    by (simp add: toggle_defs Let_def)
next
  assume "isRequestInProgress s"
  then show "sent (selectState tn v s) = sent s" by (simp add: toggle_defs)
next
  assume idle: "\<not> isRequestInProgress s"
  note first = selectState_idle [OF idle, of tn v]
  note later = selectStates_in_progress [OF first(2), of tn vs]
  show "length (sent (selectState tn v s)) = length (sent s) + 1" using first(1) by simp
  show "butlast (sent (selectState tn v s)) = sent s" using first(1) by simp
  show "isRequestInProgress (selectState tn v s)" using first(2) .
  show "sent (selectStates tn vs (selectState tn v s)) = sent (selectState tn v s)"
    using later by simp
  show "selectedState (response_failure (selectStates tn vs (selectState tn v s))) = serverState s"
    using later first(3)
    by (simp add: response_failure_def ajax_complete_def ajax_error_def notify_def Let_def)
  show "serverState (response_failure (selectStates tn vs (selectState tn v s))) = serverState s"
    using later first(3)
    by (simp add: response_failure_def ajax_complete_def ajax_error_def notify_def Let_def)
qed

text \<open>The witness: the button is switched on, clicked twice more while the request is
  outstanding, and the request fails.\<close>

theorem selectState_optimistic_single_request_revert_witness:
  "\<not> isRequestInProgress like_button
   \<and> selectedState (selectState digits_to_number (JBool True) like_button) = 1
   \<and> sent (selectState digits_to_number (JBool True) like_button) =
       [\<lparr>req_type = ''POST'', req_url = ''/likes'', req_dataType = ''json'',
         req_data = Some (''state'', 1)\<rparr>]
   \<and> sent (selectStates digits_to_number [JNum 0, JStr ''1'']
             (selectState digits_to_number (JBool True) like_button))
       = sent (selectState digits_to_number (JBool True) like_button)
   \<and> selectedState (response_failure (selectStates digits_to_number [JNum 0, JStr ''1'']
             (selectState digits_to_number (JBool True) like_button))) = 0"
proof -
  have idle: "\<not> isRequestInProgress like_button"
    by (simp add: like_button_def ToggleButton_new_def)
  have first: "sent (selectState digits_to_number (JBool True) like_button) =
       [\<lparr>req_type = ''POST'', req_url = ''/likes'', req_dataType = ''json'',
         req_data = Some (''state'', 1)\<rparr>]"
    by (simp add: like_button_def ToggleButton_new_def toggle_defs value_defs)
  show ?thesis
    using idle first
      selectState_optimistic_single_request_revert
        [of digits_to_number "JBool True" like_button "[JNum 0, JStr ''1'']"]
    by (simp add: like_button_def ToggleButton_new_def value_defs)
qed

text \<open>
  Claim C10. A call of \<open>selectState\<close> while a request is outstanding sends nothing, yet
  overwrites the selected state with 1 when the value loosely equals \<open>true\<close>, 1 or
  \<open>"1"\<close> and with 0 otherwise; when the outstanding request succeeds, the server state
  becomes that newer selected state. For a POST button that was idle, the request
  carries the value selected first, and the server state after the success is the value
  selected second: the two may differ.
\<close>

theorem selectState_during_request_overwrites:
  "(isRequestInProgress s \<longrightarrow>
       sent (selectState tn w s) = sent s
     \<and> selectedState (selectState tn w s) =
         (if loose_eq tn w (JBool True) \<or> loose_eq tn w (JNum 1) \<or> loose_eq tn w (JStr ''1'')
          then 1 else 0)
     \<and> serverState (response_success (selectState tn w s)) = selectedState (selectState tn w s))
   \<and> (\<not> isRequestInProgress s0 \<and> toUpperCase (httpMethod s0) = ''POST'' \<longrightarrow>
       map req_data (sent (selectState tn w (selectState tn v s0))) =
         map req_data (sent s0) @ [Some (parameterName s0,
            if loose_eq tn v (JBool True) \<or> loose_eq tn v (JNum 1) \<or> loose_eq tn v (JStr ''1'')
            then 1 else 0)]
     \<and> serverState (response_success (selectState tn w (selectState tn v s0))) =
         (if loose_eq tn w (JBool True) \<or> loose_eq tn w (JNum 1) \<or> loose_eq tn w (JStr ''1'')
          then 1 else 0))"
  by (simp add: toggle_defs Let_def)

theorem selectState_during_request_overwrites_witness:
  "isRequestInProgress (selectState digits_to_number (JNum 1) like_button)
   \<and> \<not> isRequestInProgress like_button
   \<and> toUpperCase (httpMethod like_button) = ''POST''
   \<and> map req_data (sent (selectState digits_to_number (JNum 0)
        (selectState digits_to_number (JNum 1) like_button))) = [Some (''state'', 1)]
   \<and> selectedState (selectState digits_to_number (JNum 0)
        (selectState digits_to_number (JNum 1) like_button)) = 0
   \<and> serverState (response_success (selectState digits_to_number (JNum 0)
        (selectState digits_to_number (JNum 1) like_button))) = 0"
proof -
  have busy: "isRequestInProgress (selectState digits_to_number (JNum 1) like_button)"
    by (simp add: like_button_def ToggleButton_new_def toggle_defs value_defs)
  have idle: "\<not> isRequestInProgress like_button"
    by (simp add: like_button_def ToggleButton_new_def)
  have post: "toUpperCase (httpMethod like_button) = ''POST''"
    by (simp add: like_button_def ToggleButton_new_def value_defs)
  have empty: "sent like_button = []" and name: "parameterName like_button = ''state''"
    by (simp_all add: like_button_def ToggleButton_new_def)
  note inst = selectState_during_request_overwrites
        [of "selectState digits_to_number (JNum 1) like_button"
            digits_to_number "JNum 0" like_button "JNum 1"]
  from inst busy have selected:
    "selectedState (selectState digits_to_number (JNum 0)
        (selectState digits_to_number (JNum 1) like_button)) = 0"
    by (simp add: loose_eq_def digits_to_number_def digit_value_def)
  from inst idle post have submitted:
    "map req_data (sent (selectState digits_to_number (JNum 0)
        (selectState digits_to_number (JNum 1) like_button))) = [Some (''state'', 1)]"
    using empty name by (simp add: loose_eq_def)
  from inst idle post have confirmed:
    "serverState (response_success (selectState digits_to_number (JNum 0)
        (selectState digits_to_number (JNum 1) like_button))) = 0"
    by (simp add: loose_eq_def digits_to_number_def digit_value_def)
  from busy idle post selected submitted confirmed show ?thesis
    by (intro conjI)
qed

section \<open>Properties of the query-string builder\<close>

lemmas number_defs = Number_toString_def StringToNumber_digits_def digits_to_number_def
  digit_value_def decimal_digits.simps








end
